theory Spec2Isabelle
  imports Complex_Main
begin

section \<open>Collisions in the corona and the solar wind: the notebook as a call sequence\<close>

text \<open>
  The repository is one notebook, \<^verbatim>\<open>collisions.ipynb\<close>. Its code cells build
  unit-tagged literals, pass them to functions of the plasma formulary and of the units
  library, bind the results to names of the notebook's namespace and print or display
  them. None of the formulary's code is part of the repository, so the formulary is a
  parameter of the model: a record of functions from the arguments the notebook passes to
  either a library-defined error or a result. The notebook itself is embedded statement
  by statement, as functions on an explicit namespace that also keeps what was written
  to the output and which library calls were made, in order.
\<close>

subsection \<open>Unit-tagged values\<close>

text \<open>
  \<^verbatim>\<open>u.K\<close>, \<^verbatim>\<open>u.cm\<close>, \<^verbatim>\<open>u.m\<close>, \<^verbatim>\<open>u.s\<close>, \<^verbatim>\<open>u.G\<close>, \<^verbatim>\<open>u.dimensionless_unscaled\<close>, the target
  unit \<^verbatim>\<open>Hz\<close> and the radian that \<^verbatim>\<open>u.dimensionless_angles()\<close> is about;
  \<^verbatim>\<open>u.cm**-3\<close> is \<open>Pow u_cm (- 3)\<close> and \<^verbatim>\<open>u.m / u.s\<close> is \<open>Div u_m u_s\<close>.
  The numbers are Python floats; every literal of the notebook is a float that is exact,
  so the model writes them as reals.
\<close>

datatype unit_of_measure =
    u_K | u_cm | u_m | u_s | u_G | u_Hz | u_rad | u_dimensionless_unscaled
  | Pow unit_of_measure int
  | Div unit_of_measure unit_of_measure

datatype quantity = Quantity (qvalue: real) (qunit: unit_of_measure)

datatype quantity_array = QuantityArray (avalues: "real list") (aunit: unit_of_measure)

text \<open>
  \<^verbatim>\<open>x * unit\<close> and \<^verbatim>\<open>quantity / unit\<close>, the only arithmetic the notebook does itself.
  Tagging a number with a unit, like printing a quantity, is taken not to raise.
\<close>

definition times_unit :: "real \<Rightarrow> unit_of_measure \<Rightarrow> quantity" where
  "times_unit x un = Quantity x un"

definition div_unit :: "quantity \<Rightarrow> unit_of_measure \<Rightarrow> quantity" where
  "div_unit q un = Quantity (qvalue q) (Div (qunit q) un)"

text \<open>\<^verbatim>\<open>equivalencies=u.dimensionless_angles()\<close>\<close>

datatype equivalency = dimensionless_angles

subsection \<open>Scenarios and keyword arguments\<close>

text \<open>
  A scenario is the dict \<^verbatim>\<open>{"T": ..., "n_e": ..., "species": [...]}\<close>; a call
  \<^verbatim>\<open>f(**scenario)\<close> passes its three entries as the keyword arguments of the same names.
\<close>

record scenario =
  T :: quantity
  n_e :: quantity
  species :: "string list"

text \<open>
  The arguments of \<^verbatim>\<open>MaxwellianCollisionFrequencies(test, field, v_drift=, T_a=, n_a=,
  n_b=, T_b=, Coulomb_log=)\<close>.
\<close>

record mcf_args =
  test_particle :: string
  field_particle :: string
  kw_v_drift :: quantity
  kw_T_a :: quantity
  kw_n_a :: quantity
  kw_n_b :: quantity
  kw_T_b :: quantity
  kw_Coulomb_log :: quantity

subsection \<open>The library, as the notebook sees it\<close>

text \<open>
  Each function returns \<open>Inl e\<close> when the library raises \<open>e\<close> and \<open>Inr\<close> of its result
  otherwise. \<open>'e\<close> is the type of the library-defined errors and \<open>'f\<close> the type of the
  object \<^verbatim>\<open>MaxwellianCollisionFrequencies(...)\<close> constructs; the notebook knows nothing
  of either. \<^verbatim>\<open>thermal_speed\<close> is called with a list of two particles and its result is
  unpacked into two names, \<^verbatim>\<open>impact_parameter\<close> returns the pair \<^verbatim>\<open>(bmin, bmax)\<close>.
  A function of the record is a function of its arguments only. Whether the library
  returns the same for the same arguments, and whether it changes an argument in place,
  is decided by code that is not part of the repository; nothing below is a statement
  about either.
\<close>

record ('e, 'f) library =
  thermal_speed :: "quantity \<Rightarrow> string list \<Rightarrow> string \<Rightarrow> nat \<Rightarrow> 'e + quantity \<times> quantity"
  impact_parameter :: "scenario \<Rightarrow> 'e + quantity \<times> quantity"
  Coulomb_logarithm :: "scenario \<Rightarrow> 'e + real"
  MaxwellianCollisionFrequencies :: "mcf_args \<Rightarrow> 'e + 'f"
  Lorentz_collision_frequency :: "'f \<Rightarrow> 'e + quantity"
  plasma_frequency :: "quantity \<Rightarrow> string list \<Rightarrow> 'e + quantity_array"
  gyrofrequency :: "quantity \<Rightarrow> string list \<Rightarrow> 'e + quantity_array"
  to_unit :: "quantity_array \<Rightarrow> string \<Rightarrow> equivalency \<Rightarrow> 'e + quantity_array"

text \<open>A library call with the arguments it was given.\<close>

datatype 'f call =
    Call_thermal_speed quantity "string list" string nat
  | Call_impact_parameter scenario
  | Call_Coulomb_logarithm scenario
  | Call_MaxwellianCollisionFrequencies mcf_args
  | Call_Lorentz_collision_frequency 'f
  | Call_plasma_frequency quantity "string list"
  | Call_gyrofrequency quantity "string list"
  | Call_to quantity_array string equivalency

text \<open>What the library raises on a call, if it raises.\<close>

definition raised_of :: "'e + 'a \<Rightarrow> 'e option" where
  "raised_of r = (case r of Inl e \<Rightarrow> Some e | Inr _ \<Rightarrow> None)"

fun raised :: "('e, 'f) library \<Rightarrow> 'f call \<Rightarrow> 'e option" where
  "raised lib (Call_thermal_speed t ps meth nd) = raised_of (thermal_speed lib t ps meth nd)"
| "raised lib (Call_impact_parameter sc) = raised_of (impact_parameter lib sc)"
| "raised lib (Call_Coulomb_logarithm sc) = raised_of (Coulomb_logarithm lib sc)"
| "raised lib (Call_MaxwellianCollisionFrequencies a) =
     raised_of (MaxwellianCollisionFrequencies lib a)"
| "raised lib (Call_Lorentz_collision_frequency f) = raised_of (Lorentz_collision_frequency lib f)"
| "raised lib (Call_plasma_frequency q ps) = raised_of (plasma_frequency lib q ps)"
| "raised lib (Call_gyrofrequency q ps) = raised_of (gyrofrequency lib q ps)"
| "raised lib (Call_to a un eqv) = raised_of (to_unit lib a un eqv)"

subsection \<open>The notebook's namespace, output and errors\<close>

datatype cell_output =
    Print "quantity list"
  | Print_fstring string string quantity
  | Display_float real
  | Display_quantity quantity
  | Display_array quantity_array

text \<open>
  A name of the namespace is \<open>None\<close> until a statement binds it. \<open>out\<close> is what the
  cells have printed and displayed so far, \<open>calls\<close> the library calls made so far.
\<close>

record 'f state =
  T_corona :: "quantity option"
  v_e :: "quantity option"
  v_p :: "quantity option"
  solar_corona :: "scenario option"
  bmin :: "quantity option"
  bmax :: "quantity option"
  n :: "quantity option"
  Coulomb_log :: "quantity option"
  frequencies :: "'f option"
  B :: "quantity option"
  solar_wind :: "scenario option"
  T_wind :: "quantity option"
  n_wind :: "quantity option"
  out :: "cell_output list"
  calls :: "'f call list"

definition empty_namespace :: "'f state" where
  "empty_namespace =
     \<lparr>T_corona = None, v_e = None, v_p = None, solar_corona = None, bmin = None,
      bmax = None, n = None, Coulomb_log = None, frequencies = None, B = None,
      solar_wind = None, T_wind = None, n_wind = None, out = [], calls = []\<rparr>"

text \<open>
  An exception is either what the library raised or Python's \<^verbatim>\<open>NameError\<close> for a
  name read before it is bound. A statement that raises leaves the namespace as it was
  (the failed call is in \<open>calls\<close>), and the run stops there.
\<close>

datatype 'e exn = LibraryError 'e | NameError string

type_synonym ('e, 'f) result = "('e exn \<times> 'f state) + 'f state"

definition state_of :: "('e, 'f) result \<Rightarrow> 'f state" where
  "state_of r = (case r of Inl (x, s) \<Rightarrow> s | Inr s \<Rightarrow> s)"

text \<open>Reading a name, and calling the library: the call is logged, its error propagates.\<close>

definition read_name ::
  "string \<Rightarrow> 'a option \<Rightarrow> 'f state \<Rightarrow> ('a \<Rightarrow> ('e, 'f) result) \<Rightarrow> ('e, 'f) result" where
  "read_name nm v s k = (case v of None \<Rightarrow> Inl (NameError nm, s) | Some x \<Rightarrow> k x)"

definition call_library ::
  "'f call \<Rightarrow> 'e + 'a \<Rightarrow> 'f state \<Rightarrow> ('a \<Rightarrow> 'f state \<Rightarrow> ('e, 'f) result) \<Rightarrow> ('e, 'f) result" where
  "call_library c r s k =
     (let s1 = s\<lparr>calls := calls s @ [c]\<rparr>
      in case r of Inl e \<Rightarrow> Inl (LibraryError e, s1) | Inr v \<Rightarrow> k v s1)"

definition emit :: "cell_output \<Rightarrow> 'f state \<Rightarrow> 'f state" where
  "emit x s = s\<lparr>out := out s @ [x]\<rparr>"

subsection \<open>The statements of the code cells\<close>

type_synonym ('e, 'f) statement = "('e, 'f) library \<Rightarrow> 'f state \<Rightarrow> ('e, 'f) result"

text \<open>Cell 66: \<^verbatim>\<open>T_corona = 1e6 * u.K\<close>\<close>

definition assign_T_corona :: "('e, 'f) statement" where
  "assign_T_corona lib s = Inr (s\<lparr>T_corona := Some (times_unit 1000000 u_K)\<rparr>)"

text \<open>\<^verbatim>\<open>v_e,v_p = thermal_speed(T=T_corona, particle=["e-","p+"], method="most_probable", ndim=3)\<close>\<close>

definition assign_thermal_speeds :: "('e, 'f) statement" where
  "assign_thermal_speeds lib s =
     read_name ''T_corona'' (T_corona s) s (\<lambda>t.
     call_library (Call_thermal_speed t [''e-'', ''p+''] ''most_probable'' 3)
       (thermal_speed lib t [''e-'', ''p+''] ''most_probable'' 3) s (\<lambda>(a, b) s1.
     Inr (s1\<lparr>v_e := Some a, v_p := Some b\<rparr>)))"

text \<open>\<^verbatim>\<open>print(v_e,v_p)\<close>\<close>

definition print_thermal_speeds :: "('e, 'f) statement" where
  "print_thermal_speeds lib s =
     read_name ''v_e'' (v_e s) s (\<lambda>a.
     read_name ''v_p'' (v_p s) s (\<lambda>b.
     Inr (emit (Print [a, b]) s)))"

text \<open>
  Cell 67: \<^verbatim>\<open>solar_corona = {"T": 1e6 * u.K, "n_e": 1e9 * u.cm**-3, "species": ["e-", "p+"]}\<close>
\<close>

definition corona_literal :: scenario where
  "corona_literal =
     \<lparr>T = times_unit 1000000 u_K, n_e = times_unit 1000000000 (Pow u_cm (- 3)),
      species = [''e-'', ''p+'']\<rparr>"

definition assign_solar_corona :: "('e, 'f) statement" where
  "assign_solar_corona lib s = Inr (s\<lparr>solar_corona := Some corona_literal\<rparr>)"

text \<open>\<^verbatim>\<open>bmin, bmax = impact_parameter(**solar_corona)\<close>\<close>

definition corona_impact_parameter :: "('e, 'f) statement" where
  "corona_impact_parameter lib s =
     read_name ''solar_corona'' (solar_corona s) s (\<lambda>sc.
     call_library (Call_impact_parameter sc) (impact_parameter lib sc) s (\<lambda>(a, b) s1.
     Inr (s1\<lparr>bmin := Some a, bmax := Some b\<rparr>)))"

text \<open>\<^verbatim>\<open>print(f"{bmin = :.2e}")\<close> and \<^verbatim>\<open>print(f"{bmax = :.2e}")\<close>\<close>

definition print_bmin :: "('e, 'f) statement" where
  "print_bmin lib s =
     read_name ''bmin'' (bmin s) s (\<lambda>a. Inr (emit (Print_fstring ''bmin'' ''.2e'' a) s))"

definition print_bmax :: "('e, 'f) statement" where
  "print_bmax lib s =
     read_name ''bmax'' (bmax s) s (\<lambda>a. Inr (emit (Print_fstring ''bmax'' ''.2e'' a) s))"

text \<open>\<^verbatim>\<open>Coulomb_logarithm(**solar_corona)\<close>, the cell's last expression, is displayed.\<close>

definition display_Coulomb_logarithm :: "('e, 'f) statement" where
  "display_Coulomb_logarithm lib s =
     read_name ''solar_corona'' (solar_corona s) s (\<lambda>sc.
     call_library (Call_Coulomb_logarithm sc) (Coulomb_logarithm lib sc) s (\<lambda>x s1.
     Inr (emit (Display_float x) s1)))"

text \<open>Cell 68: \<^verbatim>\<open>n = 1e9 * u.cm**-3\<close>\<close>

definition assign_n :: "('e, 'f) statement" where
  "assign_n lib s = Inr (s\<lparr>n := Some (times_unit 1000000000 (Pow u_cm (- 3)))\<rparr>)"

text \<open>\<^verbatim>\<open>Coulomb_log = Coulomb_logarithm(**solar_corona) * u.dimensionless_unscaled\<close>\<close>

definition corona_Coulomb_log :: "('e, 'f) statement" where
  "corona_Coulomb_log lib s =
     read_name ''solar_corona'' (solar_corona s) s (\<lambda>sc.
     call_library (Call_Coulomb_logarithm sc) (Coulomb_logarithm lib sc) s (\<lambda>x s1.
     Inr (s1\<lparr>Coulomb_log := Some (times_unit x u_dimensionless_unscaled)\<rparr>)))"

text \<open>
  \<^verbatim>\<open>frequencies = coll.frequencies.MaxwellianCollisionFrequencies("e-", "p+",
  v_drift=0 * u.m / u.s, T_a=T_corona,n_a=n,n_b=n, T_b=T_corona, Coulomb_log=Coulomb_log)\<close>
\<close>

definition corona_frequencies :: "('e, 'f) statement" where
  "corona_frequencies lib s =
     read_name ''T_corona'' (T_corona s) s (\<lambda>t.
     read_name ''n'' (n s) s (\<lambda>d.
     read_name ''Coulomb_log'' (Coulomb_log s) s (\<lambda>cl.
     let a = \<lparr>test_particle = ''e-'', field_particle = ''p+'',
              kw_v_drift = div_unit (times_unit 0 u_m) u_s,
              kw_T_a = t, kw_n_a = d, kw_n_b = d, kw_T_b = t, kw_Coulomb_log = cl\<rparr>
     in call_library (Call_MaxwellianCollisionFrequencies a)
          (MaxwellianCollisionFrequencies lib a) s (\<lambda>f s1.
        Inr (s1\<lparr>frequencies := Some f\<rparr>)))))"

text \<open>\<^verbatim>\<open>frequencies.Lorentz_collision_frequency\<close>, displayed.\<close>

definition display_Lorentz_collision_frequency :: "('e, 'f) statement" where
  "display_Lorentz_collision_frequency lib s =
     read_name ''frequencies'' (frequencies s) s (\<lambda>f.
     call_library (Call_Lorentz_collision_frequency f) (Lorentz_collision_frequency lib f) s
       (\<lambda>q s1. Inr (emit (Display_quantity q) s1)))"

text \<open>
  Cell 69: \<^verbatim>\<open>plasma_frequency(n, ['e-','p+']).to("Hz", equivalencies=u.dimensionless_angles())\<close>
\<close>

definition display_plasma_frequency :: "('e, 'f) statement" where
  "display_plasma_frequency lib s =
     read_name ''n'' (n s) s (\<lambda>d.
     call_library (Call_plasma_frequency d [''e-'', ''p+''])
       (plasma_frequency lib d [''e-'', ''p+'']) s (\<lambda>w s1.
     call_library (Call_to w ''Hz'' dimensionless_angles)
       (to_unit lib w ''Hz'' dimensionless_angles) s1 (\<lambda>h s2.
     Inr (emit (Display_array h) s2))))"

text \<open>
  Cell 70: \<^verbatim>\<open>B = 50 * u.G\<close> and
  \<^verbatim>\<open>gyrofrequency(B, ['e-','p+']).to("Hz", equivalencies=u.dimensionless_angles())\<close>
\<close>

definition assign_B :: "('e, 'f) statement" where
  "assign_B lib s = Inr (s\<lparr>B := Some (times_unit 50 u_G)\<rparr>)"

definition display_gyrofrequency :: "('e, 'f) statement" where
  "display_gyrofrequency lib s =
     read_name ''B'' (B s) s (\<lambda>b.
     call_library (Call_gyrofrequency b [''e-'', ''p+''])
       (gyrofrequency lib b [''e-'', ''p+'']) s (\<lambda>w s1.
     call_library (Call_to w ''Hz'' dimensionless_angles)
       (to_unit lib w ''Hz'' dimensionless_angles) s1 (\<lambda>h s2.
     Inr (emit (Display_array h) s2))))"

text \<open>
  Cell 71: \<^verbatim>\<open>solar_wind = {"T": 6e5 * u.K, "n_e": 25 * u.cm**-3, "species": ["e-", "p+"]}\<close>
\<close>

definition wind_literal :: scenario where
  "wind_literal =
     \<lparr>T = times_unit 600000 u_K, n_e = times_unit 25 (Pow u_cm (- 3)),
      species = [''e-'', ''p+'']\<rparr>"

definition assign_solar_wind :: "('e, 'f) statement" where
  "assign_solar_wind lib s = Inr (s\<lparr>solar_wind := Some wind_literal\<rparr>)"

text \<open>\<^verbatim>\<open>bmin, bmax = impact_parameter(**solar_wind)\<close>\<close>

definition wind_impact_parameter :: "('e, 'f) statement" where
  "wind_impact_parameter lib s =
     read_name ''solar_wind'' (solar_wind s) s (\<lambda>sc.
     call_library (Call_impact_parameter sc) (impact_parameter lib sc) s (\<lambda>(a, b) s1.
     Inr (s1\<lparr>bmin := Some a, bmax := Some b\<rparr>)))"

text \<open>\<^verbatim>\<open>Coulomb_log = Coulomb_logarithm(**solar_wind)* u.dimensionless_unscaled\<close>\<close>

definition wind_Coulomb_log :: "('e, 'f) statement" where
  "wind_Coulomb_log lib s =
     read_name ''solar_wind'' (solar_wind s) s (\<lambda>sc.
     call_library (Call_Coulomb_logarithm sc) (Coulomb_logarithm lib sc) s (\<lambda>x s1.
     Inr (s1\<lparr>Coulomb_log := Some (times_unit x u_dimensionless_unscaled)\<rparr>)))"

text \<open>\<^verbatim>\<open>print(f"{Coulomb_log = :.2e}")\<close>\<close>

definition print_Coulomb_log :: "('e, 'f) statement" where
  "print_Coulomb_log lib s =
     read_name ''Coulomb_log'' (Coulomb_log s) s (\<lambda>a.
     Inr (emit (Print_fstring ''Coulomb_log'' ''.2e'' a) s))"

text \<open>\<^verbatim>\<open>T_wind = 6*10**5*u.K\<close> and \<^verbatim>\<open>n_wind = 25 * u.cm**-3\<close>\<close>

definition assign_T_wind :: "('e, 'f) statement" where
  "assign_T_wind lib s = Inr (s\<lparr>T_wind := Some (times_unit (6 * 10 ^ 5) u_K)\<rparr>)"

definition assign_n_wind :: "('e, 'f) statement" where
  "assign_n_wind lib s = Inr (s\<lparr>n_wind := Some (times_unit 25 (Pow u_cm (- 3)))\<rparr>)"

text \<open>
  \<^verbatim>\<open>frequencies = coll.frequencies.MaxwellianCollisionFrequencies("e-", "p+",
  v_drift=0 * u.m / u.s, T_a=T_wind,n_a=n_wind,n_b=n_wind, T_b=T_wind, Coulomb_log=Coulomb_log)\<close>
\<close>

definition wind_frequencies :: "('e, 'f) statement" where
  "wind_frequencies lib s =
     read_name ''T_wind'' (T_wind s) s (\<lambda>t.
     read_name ''n_wind'' (n_wind s) s (\<lambda>d.
     read_name ''Coulomb_log'' (Coulomb_log s) s (\<lambda>cl.
     let a = \<lparr>test_particle = ''e-'', field_particle = ''p+'',
              kw_v_drift = div_unit (times_unit 0 u_m) u_s,
              kw_T_a = t, kw_n_a = d, kw_n_b = d, kw_T_b = t, kw_Coulomb_log = cl\<rparr>
     in call_library (Call_MaxwellianCollisionFrequencies a)
          (MaxwellianCollisionFrequencies lib a) s (\<lambda>f s1.
        Inr (s1\<lparr>frequencies := Some f\<rparr>)))))"

subsection \<open>The cells and the run\<close>

definition cell_66 :: "('e, 'f) statement list" where
  "cell_66 = [assign_T_corona, assign_thermal_speeds, print_thermal_speeds]"

definition cell_67 :: "('e, 'f) statement list" where
  "cell_67 = [assign_solar_corona, corona_impact_parameter, print_bmin, print_bmax,
              display_Coulomb_logarithm]"

definition cell_68 :: "('e, 'f) statement list" where
  "cell_68 = [assign_n, corona_Coulomb_log, corona_frequencies,
              display_Lorentz_collision_frequency]"

definition cell_69 :: "('e, 'f) statement list" where
  "cell_69 = [display_plasma_frequency]"

definition cell_70 :: "('e, 'f) statement list" where
  "cell_70 = [assign_B, display_gyrofrequency]"

definition cell_71 :: "('e, 'f) statement list" where
  "cell_71 = [assign_solar_wind, wind_impact_parameter, print_bmin, print_bmax,
              wind_Coulomb_log, print_Coulomb_log, assign_T_wind, assign_n_wind,
              wind_frequencies, display_Lorentz_collision_frequency]"

text \<open>
  The statements run top to bottom; the first exception ends the run, since no statement
  is inside a \<^verbatim>\<open>try\<close>.
\<close>

fun run :: "('e, 'f) library \<Rightarrow> ('e, 'f) statement list \<Rightarrow> 'f state \<Rightarrow> ('e, 'f) result" where
  "run lib [] s = Inr s"
| "run lib (st # sts) s = (case st lib s of Inl x \<Rightarrow> Inl x | Inr s' \<Rightarrow> run lib sts s')"

definition script :: "('e, 'f) statement list" where
  "script = cell_66 @ cell_67 @ cell_68 @ cell_69 @ cell_70 @ cell_71"

definition notebook :: "('e, 'f) library \<Rightarrow> ('e, 'f) result" where
  "notebook lib = run lib script empty_namespace"

subsection \<open>Reading the log of library calls\<close>

text \<open>The arguments of the \<^verbatim>\<open>MaxwellianCollisionFrequencies\<close> calls of a log, in order.\<close>

fun mcf_calls :: "'f call list \<Rightarrow> mcf_args list" where
  "mcf_calls [] = []"
| "mcf_calls (Call_MaxwellianCollisionFrequencies a # cs) = a # mcf_calls cs"
| "mcf_calls (_ # cs) = mcf_calls cs"

text \<open>No call of the log made the library raise.\<close>

definition calls_succeeded :: "('e, 'f) library \<Rightarrow> 'f call list \<Rightarrow> bool" where
  "calls_succeeded lib cs = list_all (\<lambda>c. raised lib c = None) cs"

text \<open>
  A result agrees with the library: after a normal end every logged call has succeeded;
  after a library error the last logged call is the one that raised it, with that very
  error, and the calls before it succeeded.
\<close>

definition propagated :: "('e, 'f) library \<Rightarrow> ('e, 'f) result \<Rightarrow> bool" where
  "propagated lib r =
     (case r of
        Inr s \<Rightarrow> calls_succeeded lib (calls s)
      | Inl (NameError v, s) \<Rightarrow> calls_succeeded lib (calls s)
      | Inl (LibraryError e, s) \<Rightarrow>
          calls s \<noteq> [] \<and> raised lib (last (calls s)) = Some e \<and>
          calls_succeeded lib (butlast (calls s)))"

subsection \<open>Two concrete libraries\<close>

text \<open>
  A library that answers each call of the notebook with the output the notebook file
  stores for it (the printed impact parameters and the solar-wind Coulomb logarithm with
  the three digits that were printed). The object it constructs keeps the arguments it
  was constructed with. It serves as a concrete instance of the library parameter.
\<close>

definition recorded_library :: "(string, mcf_args) library" where
  "recorded_library =
     \<lparr>thermal_speed = (\<lambda>t ps meth nd.
        Inr (Quantity (5505694902726359 / 10 ^ 9) (Div u_m u_s),
             Quantity (1284865732808313 / 10 ^ 10) (Div u_m u_s))),
      impact_parameter = (\<lambda>sc.
        if sc = corona_literal
        then Inr (Quantity (105 / 10 ^ 13) u_m, Quantity (218 / 10 ^ 5) u_m)
        else Inr (Quantity (139 / 10 ^ 13) u_m, Quantity (107 / 10) u_m)),
      Coulomb_logarithm = (\<lambda>sc.
        if sc = corona_literal then Inr (19150697742645406 / 10 ^ 15) else Inr (274 / 10)),
      MaxwellianCollisionFrequencies = (\<lambda>a. Inr a),
      Lorentz_collision_frequency = (\<lambda>a.
        if kw_T_a a = T corona_literal
        then Inr (Quantity (9241654907 / 10 ^ 8) u_Hz)
        else Inr (Quantity (710396736 / 10 ^ 14) u_Hz)),
      plasma_frequency = (\<lambda>d ps.
        Inr (QuantityArray [1783986370, 416329453 / 10] (Div u_rad u_s))),
      gyrofrequency = (\<lambda>b ps.
        Inr (QuantityArray [879410005, 478941658 / 10 ^ 3] (Div u_rad u_s))),
      to_unit = (\<lambda>w un eqv. Inr (QuantityArray (avalues w) u_Hz))\<rparr>"

text \<open>The same library, except that \<^verbatim>\<open>Coulomb_logarithm\<close> raises \<open>e\<close> on every scenario.\<close>

definition raising_library :: "string \<Rightarrow> (string, mcf_args) library" where
  "raising_library e = recorded_library\<lparr>Coulomb_logarithm := (\<lambda>sc. Inl e)\<rparr>"

section \<open>Properties of the call sequence\<close>

subsection \<open>The script as a list, and what a run preserves\<close>

lemma script_eq:
  "script =
     [assign_T_corona, assign_thermal_speeds, print_thermal_speeds,
      assign_solar_corona, corona_impact_parameter, print_bmin, print_bmax,
      display_Coulomb_logarithm,
      assign_n, corona_Coulomb_log, corona_frequencies, display_Lorentz_collision_frequency,
      display_plasma_frequency,
      assign_B, display_gyrofrequency,
      assign_solar_wind, wind_impact_parameter, print_bmin, print_bmax,
      wind_Coulomb_log, print_Coulomb_log, assign_T_wind, assign_n_wind,
      wind_frequencies, display_Lorentz_collision_frequency]"
  by (simp add: script_def cell_66_def cell_67_def cell_68_def cell_69_def cell_70_def
      cell_71_def)

lemmas stmt_defs =
  assign_T_corona_def assign_thermal_speeds_def print_thermal_speeds_def
  assign_solar_corona_def corona_impact_parameter_def print_bmin_def print_bmax_def
  display_Coulomb_logarithm_def assign_n_def corona_Coulomb_log_def corona_frequencies_def
  display_Lorentz_collision_frequency_def display_plasma_frequency_def assign_B_def
  display_gyrofrequency_def assign_solar_wind_def wind_impact_parameter_def
  wind_Coulomb_log_def print_Coulomb_log_def assign_T_wind_def assign_n_wind_def
  wind_frequencies_def read_name_def call_library_def emit_def Let_def

lemmas value_defs =
  times_unit_def div_unit_def corona_literal_def wind_literal_def empty_namespace_def

lemma state_of_simps [simp]: "state_of (Inl (x, s)) = s" "state_of (Inr s) = s"
  by (simp_all add: state_of_def)

lemma raised_of_simps [simp]: "raised_of (Inl e) = Some e" "raised_of (Inr v) = None"
  by (simp_all add: raised_of_def)

text \<open>
  A property of the namespace that every statement of a list keeps, whether the statement
  ends normally or raises, holds where the run of the list ends.
\<close>

lemma run_preserves:
  assumes step: "\<And>st s. st \<in> set sts \<Longrightarrow> P s \<Longrightarrow> P (state_of (st lib s))"
    and start: "P s"
  shows "P (state_of (run lib sts s))"
  using assms
proof (induction sts arbitrary: s)
  case Nil
  then show ?case by simp
next
  case (Cons st sts)
  have here: "P (state_of (st lib s))"
    using Cons.prems by simp
  show ?case
  proof (cases "st lib s")
    case (Inl x)
    with here show ?thesis by simp
  next
    case (Inr s')
    with here have "P s'" by simp
    then have "P (state_of (run lib sts s'))"
      using Cons.IH Cons.prems(1) by simp
    with Inr show ?thesis by simp
  qed
qed

subsection \<open>The two concrete runs\<close>

lemma recorded_run_ends: "\<exists>s. notebook recorded_library = Inr s"
  unfolding notebook_def script_eq
  by (simp add: stmt_defs value_defs recorded_library_def)

lemma recorded_mcf_calls:
  "\<exists>a1 a2. mcf_calls (calls (state_of (notebook recorded_library))) = [a1, a2]"
  unfolding notebook_def script_eq
  by (simp add: stmt_defs value_defs recorded_library_def)

lemma raising_run:
  "\<exists>s. notebook (raising_library e) = Inl (LibraryError e, s) \<and>
       calls s = [Call_thermal_speed (Quantity 1000000 u_K) [''e-'', ''p+''] ''most_probable'' 3,
                  Call_impact_parameter corona_literal,
                  Call_Coulomb_logarithm corona_literal]"
  unfolding notebook_def script_eq
  by (simp add: stmt_defs value_defs recorded_library_def raising_library_def)

subsection \<open>Errors\<close>

lemma calls_succeeded_simps:
  "calls_succeeded lib [] = True"
  "calls_succeeded lib (c # cs) = (raised lib c = None \<and> calls_succeeded lib cs)"
  "calls_succeeded lib (cs @ ds) = (calls_succeeded lib cs \<and> calls_succeeded lib ds)"
  by (simp_all add: calls_succeeded_def)

text \<open>
  Each statement, started where no call has failed, ends in agreement with the library:
  the only error a statement can produce besides a \<^verbatim>\<open>NameError\<close> is the one its own
  library call returned.
\<close>

lemma statement_propagates:
  "st \<in> set script \<Longrightarrow> calls_succeeded lib (calls s) \<Longrightarrow> propagated lib (st lib s)"
  by (auto simp add: script_eq stmt_defs propagated_def calls_succeeded_simps butlast_append
      split: option.splits sum.splits prod.splits)

lemma run_propagates:
  "set sts \<subseteq> set script \<Longrightarrow> calls_succeeded lib (calls s) \<Longrightarrow>
   propagated lib (run lib sts s)"
proof (induction sts arbitrary: s)
  case Nil
  then show ?case by (simp add: propagated_def)
next
  case (Cons st sts)
  then have p: "propagated lib (st lib s)"
    by (simp add: statement_propagates)
  show ?case
  proof (cases "st lib s")
    case (Inl x)
    with p show ?thesis by simp
  next
    case (Inr s')
    with p have "calls_succeeded lib (calls s')"
      by (simp add: propagated_def)
    with Cons Inr show ?thesis by simp
  qed
qed

text \<open>
  A complete run has logged fourteen library calls: one for each call expression of the
  code cells, none left out of the log.
\<close>

lemma complete_run_logs_every_call: "notebook lib = Inr s \<Longrightarrow> length (calls s) = 14"
  unfolding notebook_def script_eq
  by (auto simp add: stmt_defs empty_namespace_def split: sum.splits prod.splits)

text \<open>Run from the empty namespace, top to bottom, no name is read before it is bound.\<close>

lemma no_NameError: "notebook lib \<noteq> Inl (NameError v, s)"
  unfolding notebook_def script_eq
  by (simp add: stmt_defs empty_namespace_def split: sum.splits prod.splits)

text \<open>
  C6. Whatever the library does, the notebook catches nothing and raises nothing of its
  own. If the run ends normally, no library call raised. If the run ends in an
  exception, that exception is the error the library returned for the last call made,
  unchanged; every call before it had succeeded, so the first failing call ended the run
  and nothing was called again after it.
\<close>

theorem library_errors_propagate_unmodified:
  "(notebook lib = Inr s \<longrightarrow> (\<forall>c \<in> set (calls s). raised lib c = None)) \<and>
   (notebook lib = Inl (x, s') \<longrightarrow>
      (\<exists>e cs c. x = LibraryError e \<and> calls s' = cs @ [c] \<and> raised lib c = Some e \<and>
         (\<forall>c' \<in> set cs. raised lib c' = None)))"
proof -
  have p: "propagated lib (notebook lib)"
    unfolding notebook_def
    by (rule run_propagates) (simp_all add: empty_namespace_def calls_succeeded_def)
  show ?thesis
  proof (intro conjI impI)
    assume "notebook lib = Inr s"
    with p show "\<forall>c \<in> set (calls s). raised lib c = None"
      by (simp add: propagated_def calls_succeeded_def list_all_iff)
  next
    assume f: "notebook lib = Inl (x, s')"
    show "\<exists>e cs c. x = LibraryError e \<and> calls s' = cs @ [c] \<and> raised lib c = Some e \<and>
         (\<forall>c' \<in> set cs. raised lib c' = None)"
    proof (cases x)
      case (LibraryError e)
      with p f have "calls s' \<noteq> []" "raised lib (last (calls s')) = Some e"
        "calls_succeeded lib (butlast (calls s'))"
        by (simp_all add: propagated_def)
      then have "calls s' = butlast (calls s') @ [last (calls s')] \<and>
         raised lib (last (calls s')) = Some e \<and>
         (\<forall>c' \<in> set (butlast (calls s')). raised lib c' = None)"
        by (simp add: calls_succeeded_def list_all_iff)
      with LibraryError show ?thesis by blast
    next
      case (NameError v)
      with f show ?thesis
        using no_NameError [of lib v s'] by simp
    qed
  qed
qed

theorem library_errors_propagate_unmodified_witness:
  "(\<exists>s. notebook recorded_library = Inr s \<and>
        list_all (\<lambda>c. raised recorded_library c = None) (calls s)) \<and>
   (\<exists>s' cs. notebook (raising_library ''PhysicsError'') = Inl (LibraryError ''PhysicsError'', s') \<and>
        calls s' = cs @ [Call_Coulomb_logarithm corona_literal] \<and>
        raised (raising_library ''PhysicsError'') (Call_Coulomb_logarithm corona_literal)
          = Some ''PhysicsError'' \<and>
        list_all (\<lambda>c. raised (raising_library ''PhysicsError'') c = None) cs)"
proof (rule conjI)
  obtain s where s: "notebook recorded_library = Inr s"
    using recorded_run_ends by blast
  then show "\<exists>s. notebook recorded_library = Inr s \<and>
        list_all (\<lambda>c. raised recorded_library c = None) (calls s)"
    using library_errors_propagate_unmodified [of recorded_library s]
    by (simp add: list_all_iff)
next
  let ?lib = "raising_library ''PhysicsError''"
  obtain s' where s': "notebook ?lib = Inl (LibraryError ''PhysicsError'', s')"
    and c: "calls s' =
      [Call_thermal_speed (Quantity 1000000 u_K) [''e-'', ''p+''] ''most_probable'' 3,
       Call_impact_parameter corona_literal] @ [Call_Coulomb_logarithm corona_literal]"
    using raising_run [of "''PhysicsError''"] by auto
  from library_errors_propagate_unmodified [of ?lib _ "LibraryError ''PhysicsError''" s'] s'
  obtain cs c' where "calls s' = cs @ [c']" "raised ?lib c' = Some ''PhysicsError''"
    "\<forall>d \<in> set cs. raised ?lib d = None"
    by auto
  with c s' show "\<exists>s' cs. notebook ?lib = Inl (LibraryError ''PhysicsError'', s') \<and>
        calls s' = cs @ [Call_Coulomb_logarithm corona_literal] \<and>
        raised ?lib (Call_Coulomb_logarithm corona_literal) = Some ''PhysicsError'' \<and>
        list_all (\<lambda>c. raised ?lib c = None) cs"
    by (auto simp add: list_all_iff)
qed

subsection \<open>The drift velocity\<close>

lemma mcf_calls_append: "mcf_calls (xs @ ys) = mcf_calls xs @ mcf_calls ys"
  by (induction xs rule: mcf_calls.induct) simp_all

lemma v_drift_step:
  "st \<in> set script \<Longrightarrow>
   \<forall>a \<in> set (mcf_calls (calls s)). kw_v_drift a = Quantity 0 (Div u_m u_s) \<Longrightarrow>
   \<forall>a \<in> set (mcf_calls (calls (state_of (st lib s)))). kw_v_drift a = Quantity 0 (Div u_m u_s)"
  by (auto simp add: script_eq stmt_defs mcf_calls_append times_unit_def div_unit_def
      split: option.splits sum.splits prod.splits)

lemma two_mcf_calls: "notebook lib = Inr s \<Longrightarrow> length (mcf_calls (calls s)) = 2"
  unfolding notebook_def script_eq
  by (auto simp add: stmt_defs empty_namespace_def split: sum.splits prod.splits)

text \<open>
  C8. A complete run constructs \<^verbatim>\<open>MaxwellianCollisionFrequencies\<close> exactly twice, and in
  every such call the notebook makes, in a complete run or in one that stops early, the
  keyword \<^verbatim>\<open>v_drift\<close> is \<^verbatim>\<open>0 m/s\<close>. "Much smaller" is read as smaller by any factor:
  for thermal speeds \<open>v_a\<close> and \<open>v_b\<close> that are positive, as those of a scenario of positive
  temperature are, \<open>c\<close> times the drift stays below \<open>sqrt (v_a\<^sup>2 + v_b\<^sup>2)\<close> for every
  real \<open>c\<close>.
\<close>

theorem v_drift_zero_is_slowly_flowing:
  "(notebook lib = Inr s \<longrightarrow> length (mcf_calls (calls s)) = 2) \<and>
   (a \<in> set (mcf_calls (calls (state_of (run lib (take k script) empty_namespace)))) \<longrightarrow>
    0 < v_a \<longrightarrow> 0 < v_b \<longrightarrow>
      kw_v_drift a = Quantity 0 (Div u_m u_s) \<and>
      c * qvalue (kw_v_drift a) < sqrt (v_a ^ 2 + v_b ^ 2))"
proof (intro conjI impI)
  assume "notebook lib = Inr s"
  then show "length (mcf_calls (calls s)) = 2"
    by (rule two_mcf_calls)
next
  assume a: "a \<in> set (mcf_calls (calls (state_of (run lib (take k script) empty_namespace))))"
  let ?P = "\<lambda>s :: 'b state.
              \<forall>a \<in> set (mcf_calls (calls s)). kw_v_drift a = Quantity 0 (Div u_m u_s)"
  have "?P (state_of (run lib (take k script) empty_namespace))"
  proof (rule run_preserves [where P = ?P])
    fix st :: "('a, 'b) statement" and s :: "'b state"
    assume "st \<in> set (take k script)" and "?P s"
    then show "?P (state_of (st lib s))"
      using v_drift_step [of st s lib] by (blast dest: in_set_takeD)
  next
    show "?P empty_namespace"
      by (simp add: empty_namespace_def)
  qed
  with a show zero: "kw_v_drift a = Quantity 0 (Div u_m u_s)"
    by blast
  assume "0 < v_a" "0 < v_b"
  then have "0 < v_a ^ 2 + v_b ^ 2"
    by (simp add: add_pos_pos)
  then show "c * qvalue (kw_v_drift a) < sqrt (v_a ^ 2 + v_b ^ 2)"
    using zero by simp
qed

theorem v_drift_zero_is_slowly_flowing_witness:
  "\<exists>a1 a2. mcf_calls (calls (state_of (notebook recorded_library))) = [a1, a2] \<and>
     kw_v_drift a1 = Quantity 0 (Div u_m u_s) \<and> kw_v_drift a2 = Quantity 0 (Div u_m u_s) \<and>
     1000 * qvalue (kw_v_drift a1)
       < sqrt ((5505694902726359 / 10 ^ 9) ^ 2 + (1284865732808313 / 10 ^ 10) ^ 2) \<and>
     1000 * qvalue (kw_v_drift a2)
       < sqrt ((5505694902726359 / 10 ^ 9) ^ 2 + (1284865732808313 / 10 ^ 10) ^ 2)"
proof -
  obtain a1 a2 where l: "mcf_calls (calls (state_of (notebook recorded_library))) = [a1, a2]"
    using recorded_mcf_calls by blast
  have whole: "take 25 script = (script :: (string, mcf_args) statement list)"
    by (simp add: script_eq)
  have m: "a1 \<in> set (mcf_calls (calls (state_of
              (run recorded_library (take 25 script) empty_namespace))))"
    "a2 \<in> set (mcf_calls (calls (state_of
              (run recorded_library (take 25 script) empty_namespace))))"
    using l by (simp_all add: whole notebook_def)
  have pos: "(0::real) < 5505694902726359 / 10 ^ 9" "(0::real) < 1284865732808313 / 10 ^ 10"
    by simp_all
  show ?thesis
    using l m pos
      v_drift_zero_is_slowly_flowing [of recorded_library _ a1 25
        "5505694902726359 / 10 ^ 9" "1284865732808313 / 10 ^ 10" 1000]
      v_drift_zero_is_slowly_flowing [of recorded_library _ a2 25
        "5505694902726359 / 10 ^ 9" "1284865732808313 / 10 ^ 10" 1000]
    by blast
qed

end
